theory Spec2Isabelle
  imports Main "HOL-Library.Multiset"
begin

section \<open>Data model\<close>

text \<open>
  The model follows \<open>services/videoService.ts\<close>, \<open>middlewares/upload.ts\<close>,
  \<open>routes/video.ts\<close> and \<open>config/db.ts\<close>. Time stamps (\<open>Date.now()\<close>,
  \<open>new Date()\<close>) are milliseconds since the epoch, a natural number. File contents are
  byte lists. A field called \<open>size\<close> in the source is \<open>size_file\<close> / \<open>size_rec\<close> here
  (\<open>size\<close> is a constant of HOL), and \<open>_id\<close> is \<open>ident\<close>.
\<close>

type_synonym path = string
type_synonym bytes = "nat list"

text \<open>An ObjectId, held as the 24 lower-case hexadecimal digits that \<open>toString()\<close> prints.\<close>

datatype objectid = ObjectId string

text \<open>\<open>Express.Multer.File\<close>, as far as the service reads it.\<close>

record multer_file =
  originalname :: string
  mimetype :: string
  size_file :: nat
  buffer :: bytes

text \<open>\<open>interface Recording\<close>: \<open>snapshot\<close> and \<open>transcription\<close> are optional fields.\<close>

record recording =
  ident :: objectid
  filename :: string
  originalName :: string
  mimeType :: string
  size_rec :: nat
  snapshot :: "string option"
  transcription :: "string option"
  createdAt :: nat

text \<open>
  Everything the source can throw. \<open>ENOENT\<close> is a file-system call on a path that does
  not exist and \<open>EPERM\<close> one that the system refuses; \<open>BSONError\<close> is what the
  \<open>ObjectId\<close> constructor throws; \<open>InvalidFileType\<close> and \<open>LimitFileSize\<close> come from the
  upload middleware; \<open>NoFileUploaded\<close> is the handler's 400 answer for a request without a
  file.
\<close>

datatype error =
    WriteError
  | ENOENT path
  | EPERM path
  | FfmpegError
  | TranscriptionError
  | ConnectionError
  | InsertError
  | BSONError
  | InvalidFileType
  | LimitFileSize
  | NoFileUploaded

text \<open>
  The state the service works on: the uploads directory (a map from paths to contents)
  and the \<open>recordings\<close> collection, in insertion order.
\<close>

record world =
  files :: "path \<rightharpoonup> bytes"
  recordings :: "recording list"

section \<open>Identifiers\<close>

text \<open>
  \<open>new ObjectId(id)\<close> for a string argument is library code (package \<open>bson\<close>); it is
  modelled by its documented behaviour: a string of 24 hexadecimal digits is accepted,
  read without regard to case, and anything else makes the constructor throw. (Old
  versions of the package also take a string of exactly 12 bytes; the strings used
  below as malformed are shorter, and every version refuses them.)
\<close>

definition isHexDigit :: "char \<Rightarrow> bool" where
  "isHexDigit c = (c \<in> set ''0123456789abcdefABCDEF'')"

definition lowerHex :: "char \<Rightarrow> char" where
  "lowerHex c =
     (if c = CHR ''A'' then CHR ''a'' else if c = CHR ''B'' then CHR ''b''
      else if c = CHR ''C'' then CHR ''c'' else if c = CHR ''D'' then CHR ''d''
      else if c = CHR ''E'' then CHR ''e'' else if c = CHR ''F'' then CHR ''f''
      else c)"

definition ObjectId_isValid :: "string \<Rightarrow> bool" where
  "ObjectId_isValid s = (length s = 24 \<and> list_all isHexDigit s)"

definition new_ObjectId :: "string \<Rightarrow> error + objectid" where
  "new_ObjectId s =
     (if ObjectId_isValid s then Inr (ObjectId (map lowerHex s)) else Inl BSONError)"

section \<open>The recordings collection\<close>

text \<open>
  \<open>connectToDatabase\<close> returns the cached handle or connects; the argument says whether
  the store can be reached.
\<close>

definition connectToDatabase :: "bool \<Rightarrow> error + unit" where
  "connectToDatabase reachable = (if reachable then Inr () else Inl ConnectionError)"

text \<open>\<open>collection.findOne({ _id: oid })\<close>: the first document with that identifier.\<close>

definition findOne :: "objectid \<Rightarrow> recording list \<Rightarrow> recording option" where
  "findOne oid rs = find (\<lambda>r. ident r = oid) rs"

text \<open>\<open>collection.deleteOne({ _id: oid })\<close>: removes the first document with that identifier.\<close>

fun deleteOne :: "objectid \<Rightarrow> recording list \<Rightarrow> recording list" where
  "deleteOne oid [] = []"
| "deleteOne oid (r # rs) = (if ident r = oid then rs else r # deleteOne oid rs)"

text \<open>
  \<open>collection.insertOne(doc)\<close>: the collection has a unique index on \<open>_id\<close>, so a
  document whose identifier is taken is refused; \<open>ok\<close> says whether the write itself
  went through. A refused or failed insert leaves the collection as it was.
\<close>

definition insertOne :: "bool \<Rightarrow> recording \<Rightarrow> world \<Rightarrow> (error + objectid) \<times> world" where
  "insertOne ok doc w =
     (if ok \<and> ident doc \<notin> set (map ident (recordings w))
      then (Inr (ident doc), w\<lparr>recordings := recordings w @ [doc]\<rparr>)
      else (Inl InsertError, w))"

text \<open>
  \<open>VideoService.getRecording\<close>: the identifier is converted after the connection is
  there, and a throwing constructor rejects the returned promise.
\<close>

definition getRecording :: "bool \<Rightarrow> world \<Rightarrow> string \<Rightarrow> error + recording option" where
  "getRecording reachable w rid =
     (case connectToDatabase reachable of
        Inl e \<Rightarrow> Inl e
      | Inr _ \<Rightarrow>
          (case new_ObjectId rid of
             Inl e \<Rightarrow> Inl e
           | Inr oid \<Rightarrow> Inr (findOne oid (recordings w))))"

text \<open>\<open>VideoService.deleteRecording\<close>.\<close>

definition deleteRecording :: "bool \<Rightarrow> string \<Rightarrow> world \<Rightarrow> (error + unit) \<times> world" where
  "deleteRecording reachable rid w =
     (case connectToDatabase reachable of
        Inl e \<Rightarrow> (Inl e, w)
      | Inr _ \<Rightarrow>
          (case new_ObjectId rid of
             Inl e \<Rightarrow> (Inl e, w)
           | Inr oid \<Rightarrow> (Inr (), w\<lparr>recordings := deleteOne oid (recordings w)\<rparr>)))"

text \<open>
  The store's \<open>sort({ field: direction })\<close>: direction \<open>1\<close> is ascending and \<open>-1\<close> is
  descending. The store does not say in which order it returns documents whose sort
  keys are equal: \<open>tie\<close> is the store's own rank of a document (its place on disk, say),
  lower rank first, and documents of equal rank stay in insertion order.
\<close>

definition cursor_sort ::
  "(recording \<Rightarrow> nat) \<Rightarrow> (recording \<Rightarrow> nat) \<Rightarrow> int \<Rightarrow> recording list \<Rightarrow> recording list" where
  "cursor_sort tie field direction rs =
     sort_key (\<lambda>r. direction * int (field r)) (sort_key tie rs)"

text \<open>
  \<open>VideoService.getRecordings\<close> is \<open>collection.find().sort({ createdAt: -1 }).toArray()\<close>.
\<close>

definition getRecordings :: "(recording \<Rightarrow> nat) \<Rightarrow> bool \<Rightarrow> world \<Rightarrow> error + recording list" where
  "getRecordings tie reachable w =
     (case connectToDatabase reachable of
        Inl e \<Rightarrow> Inl e
      | Inr _ \<Rightarrow> Inr (cursor_sort tie createdAt (- 1) (recordings w)))"

text \<open>
  Two stores: one with no rank of its own (equal time stamps stay in insertion order) and
  one that ranks larger documents first.
\<close>

definition rank_insertion :: "recording \<Rightarrow> nat" where
  "rank_insertion r = 0"

definition rank_larger_first :: "recording \<Rightarrow> nat" where
  "rank_larger_first r = 100 - size_rec r"

section \<open>The uploads directory\<close>

text \<open>
  \<open>path.join(this.uploadsDir, name)\<close> for a normalised directory and a plain file name.
\<close>

definition path_join :: "path \<Rightarrow> string \<Rightarrow> path" where
  "path_join dir name = dir @ ''/'' @ name"

text \<open>The decimal digits of a number, as a template literal prints \<open>Date.now()\<close>.\<close>

definition digit_char :: "nat \<Rightarrow> char" where
  "digit_char d = ''0123456789'' ! d"

function string_of_nat :: "nat \<Rightarrow> string" where
  "string_of_nat n =
     (if n < 10 then [digit_char n] else string_of_nat (n div 10) @ [digit_char (n mod 10)])"
  by pat_completeness auto
termination
  by (relation "measure (\<lambda>n. n)") auto

declare string_of_nat.simps [simp del]

text \<open>
  \<open>fs.writeFile\<close> (promisified): \<open>ok\<close> says whether the write went through. A failed
  write leaves the directory as it was.
\<close>

definition writeFileAsync :: "bool \<Rightarrow> path \<Rightarrow> bytes \<Rightarrow> world \<Rightarrow> (error + unit) \<times> world" where
  "writeFileAsync ok p content w =
     (if ok then (Inr (), w\<lparr>files := (files w)(p \<mapsto> content)\<rparr>) else (Inl WriteError, w))"

text \<open>Base64 as \<open>fs.readFileSync(path, 'base64')\<close> prints a buffer; every byte is below 256.\<close>

definition b64_char :: "nat \<Rightarrow> char" where
  "b64_char n =
     ''ABCDEFGHIJKLMNOPQRSTUVWXYZabcdefghijklmnopqrstuvwxyz0123456789+/'' ! (n mod 64)"

fun base64 :: "bytes \<Rightarrow> string" where
  "base64 (a # b # c # rest) =
     [b64_char (a div 4), b64_char ((a mod 4) * 16 + b div 16),
      b64_char ((b mod 16) * 4 + c div 64), b64_char (c mod 64)] @ base64 rest"
| "base64 [a, b] =
     [b64_char (a div 4), b64_char ((a mod 4) * 16 + b div 16),
      b64_char ((b mod 16) * 4), CHR ''='']"
| "base64 [a] = [b64_char (a div 4), b64_char ((a mod 4) * 16), CHR ''='', CHR ''='']"
| "base64 [] = []"

definition readFileSync_base64 :: "path \<Rightarrow> world \<Rightarrow> error + string" where
  "readFileSync_base64 p w =
     (case files w p of None \<Rightarrow> Inl (ENOENT p) | Some content \<Rightarrow> Inr (base64 content))"

text \<open>
  \<open>fs.unlinkSync\<close>. The uploads directory is not the run's alone: another run that was
  given the same paths, or the hourly sweep of \<open>index.ts\<close>, may have removed the file
  by the time of the call (\<open>Gone\<close>: the call throws \<open>ENOENT\<close> and the file is not there),
  and the system may refuse the call (\<open>Refused\<close>: it throws and the file stays). With
  neither (\<open>Unlinked\<close>) the call removes the file, and throws when there is none.
\<close>

datatype unlink_outcome = Unlinked | Gone | Refused

definition unlinkSync :: "unlink_outcome \<Rightarrow> path \<Rightarrow> world \<Rightarrow> (error + unit) \<times> world" where
  "unlinkSync outcome p w =
     (case outcome of
        Refused \<Rightarrow> (Inl (EPERM p), w)
      | Gone \<Rightarrow> (Inl (ENOENT p), w\<lparr>files := (files w)(p := None)\<rparr>)
      | Unlinked \<Rightarrow>
          (case files w p of
             None \<Rightarrow> (Inl (ENOENT p), w)
           | Some _ \<Rightarrow> (Inr (), w\<lparr>files := (files w)(p := None)\<rparr>)))"

section \<open>The transcoding engine and the transcription service\<close>

text \<open>
  What the outside world does during one run of \<open>processVideo\<close>: the three readings of
  \<open>Date.now()\<close>, whether the write of the upload succeeds, for each of the two ffmpeg
  calls the event it fires and the file it leaves behind (if any), the text the
  transcription service returns (if it answers), whether the store can be reached, the
  identifier \<open>new ObjectId()\<close> draws, whether the insert goes through, the reading of
  \<open>new Date()\<close>, and what happens to each of the three \<open>unlinkSync\<close> calls.
\<close>

datatype engine_event = EngineEnd | EngineError

record run_env =
  now_temp :: nat
  now_thumbnail :: nat
  now_audio :: nat
  write_ok :: bool
  thumbnail_event :: engine_event
  thumbnail_output :: "bytes option"
  audio_event :: engine_event
  audio_output :: "bytes option"
  whisper :: "string option"
  db_reachable :: bool
  fresh_id :: objectid
  insert_ok :: bool
  now_created :: nat
  unlink_temp :: unlink_outcome
  unlink_audio :: unlink_outcome
  unlink_thumbnail :: unlink_outcome

text \<open>
  One ffmpeg call: without its input file the engine fails; otherwise it leaves its
  output (if it produced one) at \<open>outputPath\<close>, and the promise resolves on \<open>end\<close> and
  rejects on \<open>error\<close>. The source does not look at the output file here.
\<close>

definition ffmpeg ::
  "engine_event \<Rightarrow> bytes option \<Rightarrow> path \<Rightarrow> path \<Rightarrow> world \<Rightarrow> (error + unit) \<times> world" where
  "ffmpeg event output videoPath outputPath w =
     (case files w videoPath of
        None \<Rightarrow> (Inl FfmpegError, w)
      | Some _ \<Rightarrow>
          (let w' = (case output of
                       None \<Rightarrow> w
                     | Some content \<Rightarrow> w\<lparr>files := (files w)(outputPath \<mapsto> content)\<rparr>)
           in case event of
                EngineEnd \<Rightarrow> (Inr (), w')
              | EngineError \<Rightarrow> (Inl FfmpegError, w')))"

definition generateThumbnail :: "run_env \<Rightarrow> path \<Rightarrow> path \<Rightarrow> world \<Rightarrow> (error + unit) \<times> world" where
  "generateThumbnail env videoPath outputPath w =
     ffmpeg (thumbnail_event env) (thumbnail_output env) videoPath outputPath w"

definition extractAudio :: "run_env \<Rightarrow> path \<Rightarrow> path \<Rightarrow> world \<Rightarrow> (error + unit) \<times> world" where
  "extractAudio env videoPath outputPath w =
     ffmpeg (audio_event env) (audio_output env) videoPath outputPath w"

text \<open>
  \<open>transcribeAudio\<close> streams the audio file to the service: a missing file fails the
  stream, a service failure rejects, otherwise the text comes back.
\<close>

definition transcribeAudio :: "run_env \<Rightarrow> path \<Rightarrow> world \<Rightarrow> error + string" where
  "transcribeAudio env audioPath w =
     (case files w audioPath of
        None \<Rightarrow> Inl (ENOENT audioPath)
      | Some _ \<Rightarrow> (case whisper env of None \<Rightarrow> Inl TranscriptionError | Some text \<Rightarrow> Inr text))"

section \<open>The ingestion run\<close>

text \<open>The three temporary paths of \<open>processVideo\<close>, each with its own clock reading.\<close>

definition tempVideoPath :: "path \<Rightarrow> run_env \<Rightarrow> path" where
  "tempVideoPath uploadsDir env =
     path_join uploadsDir (''temp-'' @ string_of_nat (now_temp env) @ ''.mp4'')"

definition thumbnailPath :: "path \<Rightarrow> run_env \<Rightarrow> path" where
  "thumbnailPath uploadsDir env =
     path_join uploadsDir (''thumbnail-'' @ string_of_nat (now_thumbnail env) @ ''.jpg'')"

definition audioPath :: "path \<Rightarrow> run_env \<Rightarrow> path" where
  "audioPath uploadsDir env =
     path_join uploadsDir (''audio-'' @ string_of_nat (now_audio env) @ ''.mp3'')"

text \<open>What \<open>processVideo\<close> returns: \<open>{ id, transcription }\<close>.\<close>

record upload_result =
  result_id :: string
  result_transcription :: string

definition toString :: "objectid \<Rightarrow> string" where
  "toString oid = (case oid of ObjectId hex \<Rightarrow> hex)"

text \<open>The document handed to \<open>insertOne\<close>; the source lists no \<open>snapshot\<close> field.\<close>

definition document :: "run_env \<Rightarrow> multer_file \<Rightarrow> string \<Rightarrow> recording" where
  "document env f text =
     \<lparr>ident = fresh_id env,
      filename = originalname f,
      originalName = originalname f,
      mimeType = mimetype f,
      size_rec = size_file f,
      snapshot = None,
      transcription = Some text,
      createdAt = now_created env\<rparr>"

text \<open>
  \<open>VideoService.processVideo\<close>. Each step that throws leaves the \<open>try\<close> block; the
  \<open>catch\<close> block logs and throws the error again, so the run ends with that error and
  with the state as the failing step left it.
\<close>

definition processVideo ::
  "path \<Rightarrow> run_env \<Rightarrow> multer_file \<Rightarrow> world \<Rightarrow> (error + upload_result) \<times> world" where
  "processVideo uploadsDir env f w =
     (case writeFileAsync (write_ok env) (tempVideoPath uploadsDir env) (buffer f) w of
        (Inl e, w1) \<Rightarrow> (Inl e, w1)
      | (Inr _, w1) \<Rightarrow>
     (case generateThumbnail env (tempVideoPath uploadsDir env) (thumbnailPath uploadsDir env) w1 of
        (Inl e, w2) \<Rightarrow> (Inl e, w2)
      | (Inr _, w2) \<Rightarrow>
     (case extractAudio env (tempVideoPath uploadsDir env) (audioPath uploadsDir env) w2 of
        (Inl e, w3) \<Rightarrow> (Inl e, w3)
      | (Inr _, w3) \<Rightarrow>
     (case transcribeAudio env (audioPath uploadsDir env) w3 of
        Inl e \<Rightarrow> (Inl e, w3)
      | Inr text \<Rightarrow>
     (case connectToDatabase (db_reachable env) of
        Inl e \<Rightarrow> (Inl e, w3)
      | Inr _ \<Rightarrow>
     (case readFileSync_base64 (thumbnailPath uploadsDir env) w3 of
        Inl e \<Rightarrow> (Inl e, w3)
      | Inr thumbnail \<Rightarrow>
     (case insertOne (insert_ok env) (document env f text) w3 of
        (Inl e, w4) \<Rightarrow> (Inl e, w4)
      | (Inr insertedId, w4) \<Rightarrow>
     (case unlinkSync (unlink_temp env) (tempVideoPath uploadsDir env) w4 of
        (Inl e, w5) \<Rightarrow> (Inl e, w5)
      | (Inr _, w5) \<Rightarrow>
     (case unlinkSync (unlink_audio env) (audioPath uploadsDir env) w5 of
        (Inl e, w6) \<Rightarrow> (Inl e, w6)
      | (Inr _, w6) \<Rightarrow>
     (case unlinkSync (unlink_thumbnail env) (thumbnailPath uploadsDir env) w6 of
        (Inl e, w7) \<Rightarrow> (Inl e, w7)
      | (Inr _, w7) \<Rightarrow>
          (Inr \<lparr>result_id = toString insertedId, result_transcription = text\<rparr>, w7)))))))))))"

section \<open>The upload route\<close>

text \<open>
  \<open>middlewares/upload.ts\<close>: the size limit is \<open>MAX_FILE_SIZE\<close> (given here already
  parsed) or 100 MiB; the file filter knows six types.
\<close>

definition fileSize :: "nat option \<Rightarrow> nat" where
  "fileSize max_file_size =
     (case max_file_size of Some n \<Rightarrow> n | None \<Rightarrow> 100 * 1024 * 1024)"

definition allowedTypes :: "string list" where
  "allowedTypes =
     [''video/mp4'', ''video/webm'', ''video/x-m4v'', ''video/x-msvideo'', ''video/x-flv'',
      ''video/x-matroska'']"

text \<open>
  \<open>upload.single('video')\<close> is library code (package \<open>multer\<close>, memory storage),
  modelled by its documented behaviour: the file filter sees the part first, a part
  longer than the limit is refused, and a request without the part goes on with no file.
\<close>

definition upload_single :: "nat option \<Rightarrow> multer_file option \<Rightarrow> error + multer_file option" where
  "upload_single max_file_size part =
     (case part of
        None \<Rightarrow> Inr None
      | Some f \<Rightarrow>
          if mimetype f \<notin> set allowedTypes then Inl InvalidFileType
          else if fileSize max_file_size < size_file f then Inl LimitFileSize
          else Inr (Some f))"

text \<open>The handler of \<open>POST /upload\<close> in \<open>routes/video.ts\<close>, with its own list of types.\<close>

definition allowedTypes_route :: "string list" where
  "allowedTypes_route =
     [''video/mp4'', ''video/x-m4v'', ''video/x-msvideo'', ''video/x-flv'',
      ''video/x-matroska'', ''video/webm'']"

definition post_upload ::
  "nat option \<Rightarrow> path \<Rightarrow> run_env \<Rightarrow> multer_file option \<Rightarrow> world
     \<Rightarrow> (error + upload_result) \<times> world" where
  "post_upload max_file_size uploadsDir env part w =
     (case upload_single max_file_size part of
        Inl e \<Rightarrow> (Inl e, w)
      | Inr None \<Rightarrow> (Inl NoFileUploaded, w)
      | Inr (Some f) \<Rightarrow>
          if mimetype f \<notin> set allowedTypes_route then (Inl InvalidFileType, w)
          else processVideo uploadsDir env f w)"

section \<open>Example data\<close>

text \<open>
  One upload, the outside world of a run in which every step succeeds, of a run in which
  the audio extraction fails, of a run whose source file is gone when the cleanup
  starts, and of a second upload handled in the same millisecond; an empty state and
  two small collections.
\<close>

definition uploads0 :: path where
  "uploads0 = ''/app/uploads''"

definition clip0 :: multer_file where
  "clip0 = \<lparr>originalname = ''clip.webm'', mimetype = ''video/webm'', size_file = 4,
            buffer = [26, 69, 223, 163]\<rparr>"

definition pdf0 :: multer_file where
  "pdf0 = \<lparr>originalname = ''paper.pdf'', mimetype = ''application/pdf'', size_file = 4,
           buffer = [37, 80, 68, 70]\<rparr>"

definition env_ok :: run_env where
  "env_ok =
     \<lparr>now_temp = 1700000000000, now_thumbnail = 1700000000000, now_audio = 1700000000000,
      write_ok = True, thumbnail_event = EngineEnd, thumbnail_output = Some [255, 216, 255],
      audio_event = EngineEnd, audio_output = Some [73, 68, 51],
      whisper = Some ''hello world'', db_reachable = True,
      fresh_id = ObjectId ''65a1b2c3d4e5f60718293a4b'', insert_ok = True,
      now_created = 1700000000321, unlink_temp = Unlinked, unlink_audio = Unlinked,
      unlink_thumbnail = Unlinked\<rparr>"

definition env_no_audio :: run_env where
  "env_no_audio = env_ok\<lparr>audio_event := EngineError, audio_output := None\<rparr>"

definition env_source_gone :: run_env where
  "env_source_gone = env_ok\<lparr>unlink_temp := Gone\<rparr>"

definition env_second :: run_env where
  "env_second =
     env_ok\<lparr>whisper := Some ''second upload'',
            fresh_id := ObjectId ''65a1b2c3d4e5f60718293a4c''\<rparr>"

definition world0 :: world where
  "world0 = \<lparr>files = Map.empty, recordings = []\<rparr>"

definition rec1 :: recording where
  "rec1 =
     \<lparr>ident = ObjectId ''65a1b2c3d4e5f60718293a01'', filename = ''one.mp4'',
      originalName = ''one.mp4'', mimeType = ''video/mp4'', size_rec = 10, snapshot = None,
      transcription = Some ''one'', createdAt = 1000\<rparr>"

definition rec2 :: recording where
  "rec2 =
     \<lparr>ident = ObjectId ''65a1b2c3d4e5f60718293a02'', filename = ''two.mp4'',
      originalName = ''two.mp4'', mimeType = ''video/mp4'', size_rec = 20, snapshot = None,
      transcription = Some ''two'', createdAt = 2000\<rparr>"

definition rec3 :: recording where
  "rec3 =
     \<lparr>ident = ObjectId ''65a1b2c3d4e5f60718293a03'', filename = ''three.mp4'',
      originalName = ''three.mp4'', mimeType = ''video/mp4'', size_rec = 30, snapshot = None,
      transcription = Some ''three'', createdAt = 2000\<rparr>"

definition store12 :: world where
  "store12 = \<lparr>files = Map.empty, recordings = [rec1, rec2]\<rparr>"

definition store23 :: world where
  "store23 = \<lparr>files = Map.empty, recordings = [rec2, rec3]\<rparr>"

section \<open>The states a run passes through\<close>

text \<open>
  Names for the states of \<open>processVideo\<close> between its steps: the directory after an
  ffmpeg call has left its output, after the thumbnail step, and after both extractions.
\<close>

definition put_output :: "bytes option \<Rightarrow> path \<Rightarrow> world \<Rightarrow> world" where
  "put_output output p w =
     (case output of None \<Rightarrow> w | Some content \<Rightarrow> w\<lparr>files := (files w)(p \<mapsto> content)\<rparr>)"

definition after_thumbnail :: "path \<Rightarrow> run_env \<Rightarrow> multer_file \<Rightarrow> world \<Rightarrow> world" where
  "after_thumbnail d env f w =
     put_output (thumbnail_output env) (thumbnailPath d env)
       (w\<lparr>files := (files w)(tempVideoPath d env \<mapsto> buffer f)\<rparr>)"

definition after_extraction :: "path \<Rightarrow> run_env \<Rightarrow> multer_file \<Rightarrow> world \<Rightarrow> world" where
  "after_extraction d env f w =
     put_output (audio_output env) (audioPath d env) (after_thumbnail d env f w)"

definition after_insert :: "path \<Rightarrow> run_env \<Rightarrow> multer_file \<Rightarrow> string \<Rightarrow> world \<Rightarrow> world" where
  "after_insert d env f tx w =
     (after_extraction d env f w)\<lparr>recordings := recordings w @ [document env f tx]\<rparr>"

text \<open>
  Nothing interferes with the cleanup; and how a run ends whose \<open>unlinkSync\<close> on \<open>p\<close>
  throws.
\<close>

definition cleanup_ok :: "run_env \<Rightarrow> bool" where
  "cleanup_ok env =
     (unlink_temp env = Unlinked \<and> unlink_audio env = Unlinked \<and>
      unlink_thumbnail env = Unlinked)"

definition unlink_failed :: "unlink_outcome \<Rightarrow> path \<Rightarrow> world \<Rightarrow> (error + 'a) \<times> world" where
  "unlink_failed outcome p w =
     (case outcome of
        Refused \<Rightarrow> (Inl (EPERM p), w)
      | _ \<Rightarrow> (Inl (ENOENT p), w\<lparr>files := (files w)(p := None)\<rparr>))"

text \<open>The end of a run that has inserted its document and has its three files.\<close>

definition after_cleanup ::
  "path \<Rightarrow> run_env \<Rightarrow> upload_result \<Rightarrow> world \<Rightarrow> (error + upload_result) \<times> world" where
  "after_cleanup d env r w =
     (if unlink_temp env \<noteq> Unlinked
        then unlink_failed (unlink_temp env) (tempVideoPath d env) w
      else if unlink_audio env \<noteq> Unlinked
        then unlink_failed (unlink_audio env) (audioPath d env)
               (w\<lparr>files := (files w)(tempVideoPath d env := None)\<rparr>)
      else if unlink_thumbnail env \<noteq> Unlinked
        then unlink_failed (unlink_thumbnail env) (thumbnailPath d env)
               (w\<lparr>files := (files w)(tempVideoPath d env := None, audioPath d env := None)\<rparr>)
      else (Inr r,
            w\<lparr>files := (files w)(tempVideoPath d env := None, audioPath d env := None,
                                  thumbnailPath d env := None)\<rparr>))"

section \<open>Lookup and deletion by identifier\<close>

lemma findOne_None_iff: "findOne oid rs = None \<longleftrightarrow> (\<forall>r\<in>set rs. ident r \<noteq> oid)"
  by (induction rs) (auto simp: findOne_def)

lemma findOne_Some: "findOne oid rs = Some r \<Longrightarrow> r \<in> set rs \<and> ident r = oid"
  by (induction rs) (auto simp: findOne_def split: if_splits)

lemma deleteOne_absent: "\<forall>r\<in>set rs. ident r \<noteq> oid \<Longrightarrow> deleteOne oid rs = rs"
  by (induction rs) auto

lemma deleteOne_removes:
  "distinct (map ident rs) \<Longrightarrow> \<forall>r\<in>set (deleteOne oid rs). ident r \<noteq> oid"
  by (induction rs) (auto simp: image_iff)

lemma set_deleteOne_subset: "set (deleteOne oid rs) \<subseteq> set rs"
  by (induction rs) auto

text \<open>
  Identifiers stay unique: \<open>deleteOne\<close> keeps them so, and \<open>insertOne\<close> refuses a
  taken identifier.
\<close>

lemma distinct_deleteOne:
  "distinct (map ident rs) \<Longrightarrow> distinct (map ident (deleteOne oid rs))"
proof (induction rs)
  case Nil
  then show ?case by simp
next
  case (Cons r rs)
  have "ident ` set (deleteOne oid rs) \<subseteq> ident ` set rs"
    using set_deleteOne_subset by (rule image_mono)
  with Cons show ?case by auto
qed

lemma distinct_insertOne:
  "distinct (map ident (recordings w)) \<Longrightarrow>
   distinct (map ident (recordings (snd (insertOne ok doc w))))"
  by (simp add: insertOne_def)

lemma new_ObjectId_examples:
  "new_ObjectId ''65A1B2C3D4E5F60718293A01'' = Inr (ObjectId ''65a1b2c3d4e5f60718293a01'')"
  "new_ObjectId ''65a1b2c3d4e5f60718293a01'' = Inr (ObjectId ''65a1b2c3d4e5f60718293a01'')"
  "\<not> ObjectId_isValid ''not-an-id''"
  "new_ObjectId ''not-an-id'' = Inl BSONError"
  by (simp_all add: new_ObjectId_def ObjectId_isValid_def isHexDigit_def lowerHex_def)

lemma store_examples:
  "recordings store12 = [rec1, rec2]"
  "recordings store23 = [rec2, rec3]"
  "ident rec1 = ObjectId ''65a1b2c3d4e5f60718293a01''"
  "ident rec2 = ObjectId ''65a1b2c3d4e5f60718293a02''"
  "ident rec3 = ObjectId ''65a1b2c3d4e5f60718293a03''"
  "createdAt rec1 = 1000"
  "createdAt rec2 = 2000"
  "createdAt rec3 = 2000"
  by (simp_all add: store12_def store23_def rec1_def rec2_def rec3_def)

text \<open>
  Claim C6, as amended. For an identifier that \<open>new ObjectId\<close> accepts (24 hexadecimal
  digits), \<open>getRecording\<close> is an exact-match lookup: it returns a recording of the
  collection with that identifier, or nothing when the collection has none. For an
  identifier the constructor rejects, the call fails with the constructor's error; it
  does not answer "not found".
\<close>

theorem getRecording_exact_match:
  "(new_ObjectId rid = Inr oid \<longrightarrow>
      (\<exists>res. getRecording True w rid = Inr res \<and>
         (case res of
            None \<Rightarrow> \<forall>r\<in>set (recordings w). ident r \<noteq> oid
          | Some r \<Rightarrow> r \<in> set (recordings w) \<and> ident r = oid))) \<and>
   (new_ObjectId rid = Inl e \<longrightarrow> getRecording True w rid = Inl e)"
  by (auto simp: getRecording_def connectToDatabase_def findOne_None_iff
      dest: findOne_Some split: option.splits)

theorem getRecording_exact_match_witness:
  "new_ObjectId ''65A1B2C3D4E5F60718293A01'' = Inr (ObjectId ''65a1b2c3d4e5f60718293a01'') \<and>
   getRecording True store12 ''65A1B2C3D4E5F60718293A01'' = Inr (Some rec1) \<and>
   new_ObjectId ''not-an-id'' = Inl BSONError \<and>
   getRecording True store12 ''not-an-id'' = Inl BSONError"
  using getRecording_exact_match
      [of "''65A1B2C3D4E5F60718293A01''" "ObjectId ''65a1b2c3d4e5f60718293a01''" store12]
    getRecording_exact_match
      [of "''not-an-id''" "ObjectId ''65a1b2c3d4e5f60718293a01''" store12 BSONError]
  by (simp add: new_ObjectId_examples getRecording_def connectToDatabase_def findOne_def
      store_examples)

text \<open>
  Claim C6 as stated fails: the malformed identifier \<open>not-an-id\<close> does not yield
  "not found" but the constructor's error.
\<close>

theorem getRecording_malformed_counterexample:
  "getRecording True world0 ''not-an-id'' = Inl BSONError \<and>
   getRecording True world0 ''not-an-id'' \<noteq> Inr None"
  by (simp add: getRecording_def connectToDatabase_def new_ObjectId_examples)

text \<open>
  Claim C7, as amended. For an identifier that \<open>new ObjectId\<close> accepts, in a collection
  whose identifiers are unique, \<open>deleteRecording\<close> is idempotent: the first and the second
  call both succeed, the second changes nothing, \<open>getRecording\<close> returns nothing after
  the first call and after the second, and deleting an identifier that is not in the
  collection changes nothing. For an identifier the constructor rejects, every call
  fails with the constructor's error and changes nothing, and \<open>getRecording\<close> fails on
  it too.
\<close>

theorem deleteRecording_idempotent:
  "(new_ObjectId rid = Inr oid \<and> distinct (map ident (recordings w)) \<longrightarrow>
      fst (deleteRecording True rid w) = Inr () \<and>
      fst (deleteRecording True rid (snd (deleteRecording True rid w))) = Inr () \<and>
      snd (deleteRecording True rid (snd (deleteRecording True rid w)))
        = snd (deleteRecording True rid w) \<and>
      getRecording True (snd (deleteRecording True rid w)) rid = Inr None \<and>
      getRecording True (snd (deleteRecording True rid (snd (deleteRecording True rid w)))) rid
        = Inr None \<and>
      (getRecording True w rid = Inr None \<longrightarrow> snd (deleteRecording True rid w) = w)) \<and>
   (new_ObjectId rid = Inl e \<longrightarrow>
      deleteRecording True rid w = (Inl e, w) \<and>
      deleteRecording True rid (snd (deleteRecording True rid w)) = (Inl e, w) \<and>
      getRecording True w rid = Inl e \<and>
      getRecording True (snd (deleteRecording True rid w)) rid = Inl e)"
proof -
  have accepted: "fst (deleteRecording True rid w) = Inr () \<and>
      fst (deleteRecording True rid (snd (deleteRecording True rid w))) = Inr () \<and>
      snd (deleteRecording True rid (snd (deleteRecording True rid w)))
        = snd (deleteRecording True rid w) \<and>
      getRecording True (snd (deleteRecording True rid w)) rid = Inr None \<and>
      getRecording True (snd (deleteRecording True rid (snd (deleteRecording True rid w)))) rid
        = Inr None \<and>
      (getRecording True w rid = Inr None \<longrightarrow> snd (deleteRecording True rid w) = w)"
    if a: "new_ObjectId rid = Inr oid" and u: "distinct (map ident (recordings w))"
  proof -
    have d1: "deleteRecording True rid v
        = (Inr (), v\<lparr>recordings := deleteOne oid (recordings v)\<rparr>)" for v
      using a by (simp add: deleteRecording_def connectToDatabase_def)
    have gone: "\<forall>r\<in>set (deleteOne oid (recordings w)). ident r \<noteq> oid"
      using u by (rule deleteOne_removes)
    then have again:
      "deleteOne oid (deleteOne oid (recordings w)) = deleteOne oid (recordings w)"
      by (rule deleteOne_absent)
    have g: "getRecording True v rid = Inr (findOne oid (recordings v))" for v
      using a by (simp add: getRecording_def connectToDatabase_def)
    show ?thesis
      using gone again by (simp add: d1 g findOne_None_iff deleteOne_absent)
  qed
  have rejected: "deleteRecording True rid w = (Inl e, w) \<and>
      deleteRecording True rid (snd (deleteRecording True rid w)) = (Inl e, w) \<and>
      getRecording True w rid = Inl e \<and>
      getRecording True (snd (deleteRecording True rid w)) rid = Inl e"
    if b: "new_ObjectId rid = Inl e"
  proof -
    from b have d: "deleteRecording True rid v = (Inl e, v)" for v
      by (simp add: deleteRecording_def connectToDatabase_def)
    from b have g: "getRecording True v rid = Inl e" for v
      by (simp add: getRecording_def connectToDatabase_def)
    show ?thesis
      by (simp add: d g)
  qed
  from accepted rejected show ?thesis
    by blast
qed

theorem deleteRecording_idempotent_witness:
  "new_ObjectId ''65a1b2c3d4e5f60718293a01'' = Inr (ObjectId ''65a1b2c3d4e5f60718293a01'') \<and>
   distinct (map ident (recordings store12)) \<and>
   getRecording True store12 ''65a1b2c3d4e5f60718293a01'' = Inr (Some rec1) \<and>
   fst (deleteRecording True ''65a1b2c3d4e5f60718293a01'' store12) = Inr () \<and>
   recordings (snd (deleteRecording True ''65a1b2c3d4e5f60718293a01'' store12)) = [rec2] \<and>
   fst (deleteRecording True ''65a1b2c3d4e5f60718293a01''
          (snd (deleteRecording True ''65a1b2c3d4e5f60718293a01'' store12))) = Inr () \<and>
   recordings (snd (deleteRecording True ''65a1b2c3d4e5f60718293a01''
          (snd (deleteRecording True ''65a1b2c3d4e5f60718293a01'' store12)))) = [rec2] \<and>
   getRecording True (snd (deleteRecording True ''65a1b2c3d4e5f60718293a01'' store12))
     ''65a1b2c3d4e5f60718293a01'' = Inr None \<and>
   new_ObjectId ''not-an-id'' = Inl BSONError \<and>
   fst (deleteRecording True ''not-an-id'' store12) = Inl BSONError \<and>
   recordings (snd (deleteRecording True ''not-an-id'' store12)) = [rec1, rec2] \<and>
   getRecording True store12 ''not-an-id'' = Inl BSONError"
  using deleteRecording_idempotent
      [of "''65a1b2c3d4e5f60718293a01''" "ObjectId ''65a1b2c3d4e5f60718293a01''" store12
        BSONError]
    deleteRecording_idempotent
      [of "''not-an-id''" "ObjectId ''65a1b2c3d4e5f60718293a01''" store12 BSONError]
  by (simp add: new_ObjectId_examples store_examples deleteRecording_def getRecording_def
      connectToDatabase_def findOne_def)

text \<open>
  Claim C7 as stated fails for a malformed identifier: deleting \<open>not-an-id\<close>, which is
  in no collection, is an error and not a no-op, the first time and every time, and
  \<open>getRecording\<close> fails on it as well instead of returning nothing.
\<close>

theorem deleteRecording_malformed_counterexample:
  "fst (deleteRecording True ''not-an-id'' world0) = Inl BSONError \<and>
   fst (deleteRecording True ''not-an-id'' (snd (deleteRecording True ''not-an-id'' world0)))
     = Inl BSONError \<and>
   getRecording True (snd (deleteRecording True ''not-an-id'' world0)) ''not-an-id''
     = Inl BSONError"
  by (simp add: deleteRecording_def getRecording_def connectToDatabase_def new_ObjectId_examples)

section \<open>Listing\<close>

text \<open>The sort returns the same documents, in the order of the field it was given.\<close>

lemma mset_cursor_sort: "mset (cursor_sort tie field direction rs) = mset rs"
  by (simp add: cursor_sort_def)

lemma cursor_sort_descending:
  "sorted_wrt (\<lambda>a b. field b \<le> field a) (cursor_sort tie field (- 1) rs)"
proof -
  have "sorted (map (\<lambda>r. - 1 * int (field r)) (cursor_sort tie field (- 1) rs))"
    unfolding cursor_sort_def by (rule sorted_sort_key)
  then show ?thesis
    by (simp add: sorted_wrt_map)
qed

lemma cursor_sort_ascending:
  "sorted_wrt (\<lambda>a b. field a \<le> field b) (cursor_sort tie field 1 rs)"
proof -
  have "sorted (map (\<lambda>r. 1 * int (field r)) (cursor_sort tie field 1 rs))"
    unfolding cursor_sort_def by (rule sorted_sort_key)
  then show ?thesis
    by (simp add: sorted_wrt_map)
qed

text \<open>
  With strictly increasing time stamps there is one newest-first order only: the
  reverse of the insertion order.
\<close>

lemma newest_first_unique:
  assumes perm: "mset ys = mset xs"
    and desc: "sorted_wrt (\<lambda>a b. createdAt b \<le> createdAt a) ys"
    and incr: "sorted_wrt (<) (map createdAt xs)"
  shows "ys = rev xs"
proof -
  have dx: "distinct (map createdAt xs)"
    using incr by (simp add: strict_sorted_iff)
  have sx: "sorted (map createdAt xs)"
    using incr by (simp add: strict_sorted_iff)
  have keys: "mset (map createdAt (rev ys)) = mset (map createdAt xs)"
    using perm by simp
  have dy: "distinct (map createdAt (rev ys))"
    using dx keys by (metis mset_eq_imp_distinct_iff)
  have "sorted_wrt (\<lambda>a b. createdAt a \<le> createdAt b) (rev ys)"
    using desc by (simp add: sorted_wrt_rev)
  then have sy: "sorted (map createdAt (rev ys))"
    by (simp add: sorted_wrt_map)
  have "set (map createdAt (rev ys)) = set (map createdAt xs)"
    using keys by (rule mset_eq_setD)
  with sy dy sx dx have eq: "map createdAt (rev ys) = map createdAt xs"
    by (rule sorted_distinct_set_unique)
  have "set (rev ys) = set xs"
    using perm by (metis mset_eq_setD set_rev)
  moreover have "inj_on createdAt (set xs)"
    using dx by (simp add: distinct_map)
  ultimately have "inj_on createdAt (set (rev ys) \<union> set xs)"
    by simp
  with eq have "rev ys = xs"
    by (simp add: inj_on_map_eq_map)
  then show ?thesis by auto
qed

text \<open>
  Claim C8, as amended. \<open>getRecordings\<close> returns all stored records ordered by
  \<open>createdAt\<close> descending, whatever rank the store gives to documents with equal time
  stamps, and when the records were inserted with strictly increasing time stamps the
  listing is exactly the reverse insertion order. The order among records with equal
  time stamps is the store's choice; the query asks for none.
\<close>

theorem getRecordings_newest_first:
  "\<exists>rs. getRecordings tie True w = Inr rs \<and>
     mset rs = mset (recordings w) \<and>
     sorted_wrt (\<lambda>a b. createdAt b \<le> createdAt a) rs \<and>
     (sorted_wrt (<) (map createdAt (recordings w)) \<longrightarrow> rs = rev (recordings w))"
proof -
  let ?rs = "cursor_sort tie createdAt (- 1) (recordings w)"
  have g: "getRecordings tie True w = Inr ?rs"
    by (simp add: getRecordings_def connectToDatabase_def)
  have m: "mset ?rs = mset (recordings w)"
    by (rule mset_cursor_sort)
  have d: "sorted_wrt (\<lambda>a b. createdAt b \<le> createdAt a) ?rs"
    by (rule cursor_sort_descending)
  have "sorted_wrt (<) (map createdAt (recordings w)) \<longrightarrow> ?rs = rev (recordings w)"
    using m d by (auto intro: newest_first_unique)
  with g m d show ?thesis by blast
qed

theorem getRecordings_newest_first_witness:
  "sorted_wrt (<) (map createdAt (recordings store12)) \<and>
   getRecordings rank_insertion True store12 = Inr [rec2, rec1] \<and>
   getRecordings rank_larger_first True store12 = Inr [rec2, rec1]"
  using getRecordings_newest_first [of rank_insertion store12]
    getRecordings_newest_first [of rank_larger_first store12]
  by (auto simp: store_examples)

text \<open>
  Claim C8 as stated fails on two records inserted one after the other with the same time
  stamp (the time stamps are monotonic: they do not decrease). A store that breaks the
  tie by insertion order lists them in insertion order, which is not the reverse
  insertion order the claim promises; a store with a rank of its own lists them in
  reverse insertion order, and so does not break the tie by insertion order.
\<close>

theorem getRecordings_ties_counterexample:
  "sorted (map createdAt (recordings store23)) \<and> rec2 \<noteq> rec3 \<and>
   getRecordings rank_insertion True store23 = Inr [rec2, rec3] \<and>
   getRecordings rank_larger_first True store23 = Inr [rec3, rec2]"
  by (simp add: getRecordings_def connectToDatabase_def cursor_sort_def rank_insertion_def
      rank_larger_first_def store23_def rec2_def rec3_def)

section \<open>The ingestion run, step by step\<close>

lemma paths_distinct:
  "tempVideoPath d e \<noteq> thumbnailPath d e'"
  "tempVideoPath d e \<noteq> audioPath d e'"
  "thumbnailPath d e \<noteq> audioPath d e'"
  "thumbnailPath d e \<noteq> tempVideoPath d e'"
  "audioPath d e \<noteq> tempVideoPath d e'"
  "audioPath d e \<noteq> thumbnailPath d e'"
  by (simp_all add: tempVideoPath_def thumbnailPath_def audioPath_def path_join_def)

lemma ffmpeg_eq:
  "files w v \<noteq> None \<Longrightarrow>
   ffmpeg ev out v p w =
     (case ev of
        EngineEnd \<Rightarrow> (Inr (), put_output out p w)
      | EngineError \<Rightarrow> (Inl FfmpegError, put_output out p w))"
  by (auto simp: ffmpeg_def put_output_def Let_def split: option.splits engine_event.splits)

lemma files_put_output:
  "files (put_output out p w) q =
     (if q = p then (case out of None \<Rightarrow> files w q | Some c \<Rightarrow> Some c) else files w q)"
  by (simp add: put_output_def split: option.splits)

lemma recordings_put_output [simp]: "recordings (put_output out p w) = recordings w"
  by (simp add: put_output_def split: option.splits)

lemma files_after_thumbnail:
  "files (after_thumbnail d env f w) (tempVideoPath d env) = Some (buffer f)"
  "files w p \<noteq> None \<Longrightarrow> files (after_thumbnail d env f w) p \<noteq> None"
  by (auto simp: after_thumbnail_def files_put_output paths_distinct split: option.splits)

lemma recordings_after_thumbnail [simp]:
  "recordings (after_thumbnail d env f w) = recordings w"
  by (simp add: after_thumbnail_def)

lemma files_after_extraction:
  "files (after_extraction d env f w) (tempVideoPath d env) = Some (buffer f)"
  "files w p \<noteq> None \<Longrightarrow> files (after_extraction d env f w) p \<noteq> None"
proof -
  show "files (after_extraction d env f w) (tempVideoPath d env) = Some (buffer f)"
    by (simp add: after_extraction_def files_put_output files_after_thumbnail paths_distinct)
  assume "files w p \<noteq> None"
  then have "files (after_thumbnail d env f w) p \<noteq> None"
    by (rule files_after_thumbnail(2))
  then show "files (after_extraction d env f w) p \<noteq> None"
    by (auto simp: after_extraction_def files_put_output split: option.splits)
qed

lemma recordings_after_extraction [simp]:
  "recordings (after_extraction d env f w) = recordings w"
  by (simp add: after_extraction_def)

lemma ident_document [simp]: "ident (document env f t) = fresh_id env"
  by (simp add: document_def)

text \<open>
  The three \<open>unlinkSync\<close> calls at the end of the \<open>try\<close> block, when the three files are
  there: the first call that throws ends the run, after the calls before it have
  removed their files.
\<close>

lemma cleanup:
  assumes "files w (tempVideoPath d env) \<noteq> None" "files w (audioPath d env) \<noteq> None"
    "files w (thumbnailPath d env) \<noteq> None"
  shows "(case unlinkSync (unlink_temp env) (tempVideoPath d env) w of
            (Inl e, w5) \<Rightarrow> (Inl e, w5)
          | (Inr _, w5) \<Rightarrow>
         (case unlinkSync (unlink_audio env) (audioPath d env) w5 of
            (Inl e, w6) \<Rightarrow> (Inl e, w6)
          | (Inr _, w6) \<Rightarrow>
         (case unlinkSync (unlink_thumbnail env) (thumbnailPath d env) w6 of
            (Inl e, w7) \<Rightarrow> (Inl e, w7)
          | (Inr _, w7) \<Rightarrow> (Inr r, w7))))
         = after_cleanup d env r w"
  using assms
  by (cases "unlink_temp env"; cases "unlink_audio env"; cases "unlink_thumbnail env")
    (auto simp: unlinkSync_def unlink_failed_def after_cleanup_def paths_distinct)

lemma after_cleanup_ok:
  "cleanup_ok env \<Longrightarrow>
   after_cleanup d env r w =
     (Inr r, w\<lparr>files := (files w)(tempVideoPath d env := None, audioPath d env := None,
                                thumbnailPath d env := None)\<rparr>)"
  by (simp add: after_cleanup_def cleanup_ok_def)

lemma after_cleanup_Inr:
  "fst (after_cleanup d env r w) = Inr res \<Longrightarrow> cleanup_ok env \<and> res = r"
  by (cases "unlink_temp env"; cases "unlink_audio env"; cases "unlink_thumbnail env")
    (auto simp: after_cleanup_def unlink_failed_def cleanup_ok_def)

lemma after_cleanup_Inl:
  "fst (after_cleanup d env r w) = Inl e \<Longrightarrow>
   \<not> cleanup_ok env \<and> recordings (snd (after_cleanup d env r w)) = recordings w"
  by (cases "unlink_temp env"; cases "unlink_audio env"; cases "unlink_thumbnail env")
    (auto simp: after_cleanup_def unlink_failed_def cleanup_ok_def)

lemma files_after_insert_cleared:
  "(files (after_insert d env f tx w))
     (tempVideoPath d env := None, audioPath d env := None, thumbnailPath d env := None)
   = (files w)(tempVideoPath d env := None, audioPath d env := None,
               thumbnailPath d env := None)"
  by (rule ext)
    (simp add: after_insert_def after_extraction_def after_thumbnail_def files_put_output
      split: option.splits)

lemma recordings_after_insert [simp]:
  "recordings (after_insert d env f tx w) = recordings w @ [document env f tx]"
  by (simp add: after_insert_def)

text \<open>
  \<open>processVideo\<close> with its steps evaluated: which step ends the run, with which error and
  in which state, and the result and state of a run that gets through.
\<close>

lemma processVideo_flat:
  "processVideo d env f w =
     (if \<not> write_ok env then (Inl WriteError, w)
      else if thumbnail_event env = EngineError
        then (Inl FfmpegError, after_thumbnail d env f w)
      else if audio_event env = EngineError then (Inl FfmpegError, after_extraction d env f w)
      else if files (after_extraction d env f w) (audioPath d env) = None
        then (Inl (ENOENT (audioPath d env)), after_extraction d env f w)
      else case whisper env of
        None \<Rightarrow> (Inl TranscriptionError, after_extraction d env f w)
      | Some tx \<Rightarrow>
          if \<not> db_reachable env then (Inl ConnectionError, after_extraction d env f w)
          else if files (after_extraction d env f w) (thumbnailPath d env) = None
            then (Inl (ENOENT (thumbnailPath d env)), after_extraction d env f w)
          else if \<not> (insert_ok env \<and> fresh_id env \<notin> set (map ident (recordings w)))
            then (Inl InsertError, after_extraction d env f w)
          else after_cleanup d env
                 \<lparr>result_id = toString (fresh_id env), result_transcription = tx\<rparr>
                 (after_insert d env f tx w))"
proof -
  let ?t = "tempVideoPath d env" and ?th = "thumbnailPath d env" and ?a = "audioPath d env"
  let ?w1 = "w\<lparr>files := (files w)(?t \<mapsto> buffer f)\<rparr>"
  let ?w2 = "after_thumbnail d env f w"
  let ?w3 = "after_extraction d env f w"
  have w2: "?w2 = put_output (thumbnail_output env) ?th ?w1"
    by (simp add: after_thumbnail_def)
  have w3: "?w3 = put_output (audio_output env) ?a ?w2"
    by (simp add: after_extraction_def)
  have t1: "files ?w1 ?t \<noteq> None" by simp
  have t2: "files ?w2 ?t \<noteq> None"
    by (simp add: files_after_thumbnail)
  have thumb: "generateThumbnail env ?t ?th ?w1 =
      (case thumbnail_event env of
         EngineEnd \<Rightarrow> (Inr (), ?w2)
       | EngineError \<Rightarrow> (Inl FfmpegError, ?w2))"
    unfolding generateThumbnail_def w2 by (rule ffmpeg_eq [OF t1])
  have audio: "extractAudio env ?t ?a ?w2 =
      (case audio_event env of
         EngineEnd \<Rightarrow> (Inr (), ?w3)
       | EngineError \<Rightarrow> (Inl FfmpegError, ?w3))"
    unfolding extractAudio_def w3 by (rule ffmpeg_eq [OF t2])
  show ?thesis
  proof (cases "write_ok env")
    case False
    then show ?thesis by (simp add: processVideo_def writeFileAsync_def)
  next
    case wr: True
    show ?thesis
    proof (cases "thumbnail_event env")
      case EngineError
      with wr show ?thesis by (simp add: processVideo_def writeFileAsync_def thumb)
    next
      case th: EngineEnd
      show ?thesis
      proof (cases "audio_event env")
        case EngineError
        with wr th show ?thesis by (simp add: processVideo_def writeFileAsync_def thumb audio)
      next
        case au: EngineEnd
        have start: "processVideo d env f w =
          (case transcribeAudio env ?a ?w3 of
             Inl e \<Rightarrow> (Inl e, ?w3)
           | Inr tx \<Rightarrow>
          (case connectToDatabase (db_reachable env) of
             Inl e \<Rightarrow> (Inl e, ?w3)
           | Inr _ \<Rightarrow>
          (case readFileSync_base64 ?th ?w3 of
             Inl e \<Rightarrow> (Inl e, ?w3)
           | Inr thumbnail \<Rightarrow>
          (case insertOne (insert_ok env) (document env f tx) ?w3 of
             (Inl e, w4) \<Rightarrow> (Inl e, w4)
           | (Inr insertedId, w4) \<Rightarrow>
          (case unlinkSync (unlink_temp env) ?t w4 of
             (Inl e, w5) \<Rightarrow> (Inl e, w5)
           | (Inr _, w5) \<Rightarrow>
          (case unlinkSync (unlink_audio env) ?a w5 of
             (Inl e, w6) \<Rightarrow> (Inl e, w6)
           | (Inr _, w6) \<Rightarrow>
          (case unlinkSync (unlink_thumbnail env) ?th w6 of
             (Inl e, w7) \<Rightarrow> (Inl e, w7)
           | (Inr _, w7) \<Rightarrow>
               (Inr \<lparr>result_id = toString insertedId, result_transcription = tx\<rparr>,
                w7))))))))"
          using wr th au by (simp add: processVideo_def writeFileAsync_def thumb audio)
        show ?thesis
        proof (cases "files ?w3 ?a")
          case None
          with wr th au show ?thesis by (simp add: start transcribeAudio_def)
        next
          case a3: (Some ac)
          show ?thesis
          proof (cases "whisper env")
            case None
            with wr th au a3 show ?thesis by (simp add: start transcribeAudio_def)
          next
            case wh: (Some tx)
            show ?thesis
            proof (cases "db_reachable env")
              case False
              with wr th au a3 wh show ?thesis
                by (simp add: start transcribeAudio_def connectToDatabase_def)
            next
              case db: True
              show ?thesis
              proof (cases "files ?w3 ?th")
                case None
                with wr th au a3 wh db show ?thesis
                  by (simp add: start transcribeAudio_def connectToDatabase_def
                      readFileSync_base64_def)
              next
                case th3: (Some tc)
                show ?thesis
                proof (cases "insert_ok env \<and> fresh_id env \<notin> set (map ident (recordings w))")
                  case False
                  then have "insertOne (insert_ok env) (document env f tx) ?w3
                      = (Inl InsertError, ?w3)"
                    by (auto simp: insertOne_def)
                  with False wr th au a3 wh db th3 show ?thesis
                    by (simp add: start transcribeAudio_def connectToDatabase_def
                        readFileSync_base64_def)
                next
                  case ins: True
                  let ?w4 = "after_insert d env f tx w"
                  have i: "insertOne (insert_ok env) (document env f tx) ?w3
                      = (Inr (fresh_id env), ?w4)"
                    using ins by (simp add: insertOne_def after_insert_def)
                  have c: "(case unlinkSync (unlink_temp env) ?t ?w4 of
                      (Inl e, w5) \<Rightarrow> (Inl e, w5)
                    | (Inr _, w5) \<Rightarrow>
                   (case unlinkSync (unlink_audio env) ?a w5 of
                      (Inl e, w6) \<Rightarrow> (Inl e, w6)
                    | (Inr _, w6) \<Rightarrow>
                   (case unlinkSync (unlink_thumbnail env) ?th w6 of
                      (Inl e, w7) \<Rightarrow> (Inl e, w7)
                    | (Inr _, w7) \<Rightarrow> (Inr r, w7))))
                   = after_cleanup d env r ?w4"
                    for r
                    by (rule cleanup)
                      (simp_all add: after_insert_def a3 th3 files_after_extraction)
                  have "processVideo d env f w =
                    after_cleanup d env
                      \<lparr>result_id = toString (fresh_id env), result_transcription = tx\<rparr> ?w4"
                    using a3 wh db th3
                    by (simp add: start transcribeAudio_def connectToDatabase_def
                        readFileSync_base64_def i c)
                  then show ?thesis
                    using wr th au a3 wh db th3 ins by simp
                qed
              qed
            qed
          qed
        qed
      qed
    qed
  qed
qed

text \<open>
  A run either throws before it has inserted anything, in one of three states, or it
  inserts its document and goes on to the cleanup.
\<close>

lemma processVideo_split:
  "(\<exists>e. fst (processVideo d env f w) = Inl e \<and>
      ((\<not> write_ok env \<and> snd (processVideo d env f w) = w) \<or>
       (write_ok env \<and> snd (processVideo d env f w) = after_thumbnail d env f w) \<or>
       (write_ok env \<and> snd (processVideo d env f w) = after_extraction d env f w))) \<or>
   (\<exists>tx. whisper env = Some tx \<and>
      processVideo d env f w =
        after_cleanup d env
          \<lparr>result_id = toString (fresh_id env), result_transcription = tx\<rparr>
          (after_insert d env f tx w))"
  by (auto simp: processVideo_flat split: option.splits)

text \<open>A run that returns: its result and its final state.\<close>

lemma processVideo_Inr:
  assumes "fst (processVideo d env f w) = Inr res"
  shows "\<exists>tx. whisper env = Some tx \<and> cleanup_ok env \<and>
           res = \<lparr>result_id = toString (fresh_id env), result_transcription = tx\<rparr> \<and>
           snd (processVideo d env f w) =
             \<lparr>files = (files w)(tempVideoPath d env := None, audioPath d env := None,
                                 thumbnailPath d env := None),
              recordings = recordings w @ [document env f tx]\<rparr>"
proof -
  from processVideo_split [of d env f w] assms
  obtain tx where tx: "whisper env = Some tx"
    and pv: "processVideo d env f w =
        after_cleanup d env
          \<lparr>result_id = toString (fresh_id env), result_transcription = tx\<rparr>
          (after_insert d env f tx w)"
    by auto
  from assms pv have ok: "cleanup_ok env"
    and res: "res = \<lparr>result_id = toString (fresh_id env), result_transcription = tx\<rparr>"
    using after_cleanup_Inr
      [of d env "\<lparr>result_id = toString (fresh_id env), result_transcription = tx\<rparr>"
        "after_insert d env f tx w" res]
    by simp_all
  have "snd (processVideo d env f w) =
      \<lparr>files = (files w)(tempVideoPath d env := None, audioPath d env := None,
                          thumbnailPath d env := None),
       recordings = recordings w @ [document env f tx]\<rparr>"
    using files_after_insert_cleared [of d env f tx w]
    by (simp add: pv after_cleanup_ok [OF ok])
  with tx ok res show ?thesis by blast
qed

text \<open>
  A run that throws ends in one of the three states before the insert, or in the cleanup
  after it.
\<close>

lemma processVideo_Inl_state:
  assumes "fst (processVideo d env f w) = Inl e"
  shows "(\<not> write_ok env \<and> snd (processVideo d env f w) = w) \<or>
         (write_ok env \<and> snd (processVideo d env f w) = after_thumbnail d env f w) \<or>
         (write_ok env \<and> snd (processVideo d env f w) = after_extraction d env f w) \<or>
         (\<not> cleanup_ok env \<and>
          (\<exists>tx. whisper env = Some tx \<and>
             recordings (snd (processVideo d env f w)) = recordings w @ [document env f tx]))"
proof -
  from processVideo_split [of d env f w]
  consider (before) "(\<not> write_ok env \<and> snd (processVideo d env f w) = w) \<or>
       (write_ok env \<and> snd (processVideo d env f w) = after_thumbnail d env f w) \<or>
       (write_ok env \<and> snd (processVideo d env f w) = after_extraction d env f w)"
    | (cleanup) tx where "whisper env = Some tx"
        "processVideo d env f w =
           after_cleanup d env
             \<lparr>result_id = toString (fresh_id env), result_transcription = tx\<rparr>
             (after_insert d env f tx w)"
    by blast
  then show ?thesis
  proof cases
    case before
    then show ?thesis by blast
  next
    case cleanup
    with assms after_cleanup_Inl
      [of d env "\<lparr>result_id = toString (fresh_id env), result_transcription = tx\<rparr>"
        "after_insert d env f tx w" e]
    have "\<not> cleanup_ok env \<and>
        recordings (snd (processVideo d env f w)) = recordings w @ [document env f tx]"
      by simp
    with cleanup(1) show ?thesis by blast
  qed
qed

lemma processVideo_Inl:
  assumes "fst (processVideo d env f w) = Inl e"
  shows "cleanup_ok env \<Longrightarrow> recordings (snd (processVideo d env f w)) = recordings w"
    and "recordings (snd (processVideo d env f w)) = recordings w \<Longrightarrow> files w p \<noteq> None \<Longrightarrow>
           files (snd (processVideo d env f w)) p \<noteq> None"
    and "recordings (snd (processVideo d env f w)) = recordings w \<Longrightarrow> write_ok env \<Longrightarrow>
           files (snd (processVideo d env f w)) (tempVideoPath d env) = Some (buffer f)"
    and "recordings (snd (processVideo d env f w)) = recordings w \<or>
         (\<exists>tx. whisper env = Some tx \<and>
            recordings (snd (processVideo d env f w)) = recordings w @ [document env f tx])"
proof -
  note st = processVideo_Inl_state [OF assms]
  from st show "cleanup_ok env \<Longrightarrow> recordings (snd (processVideo d env f w)) = recordings w"
    by auto
  from st show "recordings (snd (processVideo d env f w)) = recordings w \<Longrightarrow>
      files w p \<noteq> None \<Longrightarrow> files (snd (processVideo d env f w)) p \<noteq> None"
    using files_after_thumbnail(2) [of w p d env f] files_after_extraction(2) [of w p d env f]
    by auto
  from st show "recordings (snd (processVideo d env f w)) = recordings w \<Longrightarrow> write_ok env \<Longrightarrow>
      files (snd (processVideo d env f w)) (tempVideoPath d env) = Some (buffer f)"
    using files_after_thumbnail(1) [of d env f w] files_after_extraction(1) [of d env f w]
    by auto
  from st show "recordings (snd (processVideo d env f w)) = recordings w \<or>
         (\<exists>tx. whisper env = Some tx \<and>
            recordings (snd (processVideo d env f w)) = recordings w @ [document env f tx])"
    by auto
qed

text \<open>The example runs.\<close>

lemma examples_simps:
  "buffer clip0 = [26, 69, 223, 163]"
  "originalname clip0 = ''clip.webm''"
  "mimetype clip0 = ''video/webm''"
  "size_file clip0 = 4"
  "mimetype pdf0 = ''application/pdf''"
  "recordings world0 = []"
  "files world0 p = None"
  "write_ok env_no_audio"
  "cleanup_ok env_no_audio"
  "\<not> cleanup_ok env_source_gone"
  "thumbnail_output env_ok = Some [255, 216, 255]"
  by (simp_all add: clip0_def pdf0_def world0_def env_no_audio_def env_source_gone_def
      env_ok_def cleanup_ok_def)

lemma run_ok_fst:
  "fst (processVideo uploads0 env_ok clip0 world0) =
     Inr \<lparr>result_id = ''65a1b2c3d4e5f60718293a4b'', result_transcription = ''hello world''\<rparr>"
  by (simp add: processVideo_flat env_ok_def world0_def after_extraction_def after_thumbnail_def
      after_insert_def after_cleanup_def files_put_output paths_distinct toString_def)

lemma run_ok:
  "processVideo uploads0 env_ok clip0 world0 =
     (Inr \<lparr>result_id = ''65a1b2c3d4e5f60718293a4b'', result_transcription = ''hello world''\<rparr>,
      \<lparr>files = (Map.empty)(tempVideoPath uploads0 env_ok := None,
                 audioPath uploads0 env_ok := None, thumbnailPath uploads0 env_ok := None),
       recordings = [document env_ok clip0 ''hello world'']\<rparr>)"
proof -
  from processVideo_Inr [OF run_ok_fst] obtain tx where "whisper env_ok = Some tx"
    and "snd (processVideo uploads0 env_ok clip0 world0) =
      \<lparr>files = (files world0)(tempVideoPath uploads0 env_ok := None,
                 audioPath uploads0 env_ok := None, thumbnailPath uploads0 env_ok := None),
       recordings = recordings world0 @ [document env_ok clip0 tx]\<rparr>"
    by blast
  moreover have "whisper env_ok = Some ''hello world''"
    by (simp add: env_ok_def)
  ultimately have "snd (processVideo uploads0 env_ok clip0 world0) =
      \<lparr>files = (Map.empty)(tempVideoPath uploads0 env_ok := None,
                 audioPath uploads0 env_ok := None, thumbnailPath uploads0 env_ok := None),
       recordings = [document env_ok clip0 ''hello world'']\<rparr>"
    by (simp add: world0_def)
  with run_ok_fst show ?thesis
    by (simp add: prod_eq_iff)
qed

lemma run_no_audio:
  "fst (processVideo uploads0 env_no_audio clip0 world0) = Inl FfmpegError"
  "recordings (snd (processVideo uploads0 env_no_audio clip0 world0)) = []"
  "files (snd (processVideo uploads0 env_no_audio clip0 world0))
     (tempVideoPath uploads0 env_no_audio) = Some (buffer clip0)"
  "files (snd (processVideo uploads0 env_no_audio clip0 world0))
     (thumbnailPath uploads0 env_no_audio) = Some [255, 216, 255]"
  by (simp_all add: processVideo_flat env_ok_def env_no_audio_def world0_def after_extraction_def
      after_thumbnail_def files_put_output paths_distinct put_output_def)


text \<open>Printing a clock reading, and the paths of the example runs.\<close>

lemma string_of_nat_digit: "n < 10 \<Longrightarrow> string_of_nat n = [digit_char n]"
  by (simp add: string_of_nat.simps)

lemma string_of_nat_numeral:
  "string_of_nat (numeral k) =
     (if numeral k < (10::nat) then [digit_char (numeral k)]
      else string_of_nat (numeral k div 10) @ [digit_char (numeral k mod 10)])"
  by (rule string_of_nat.simps)

lemma tempVideoPath_env_ok:
  "tempVideoPath uploads0 env_ok = ''/app/uploads/temp-1700000000000.mp4''"
  by (simp add: tempVideoPath_def path_join_def uploads0_def env_ok_def digit_char_def
      string_of_nat_numeral string_of_nat_digit)

lemma same_clock:
  "now_temp env_second = now_temp env_ok"
  "now_thumbnail env_second = now_thumbnail env_ok"
  "now_audio env_second = now_audio env_ok"
  "now_temp env_source_gone = now_temp env_ok"
  by (simp_all add: env_second_def env_source_gone_def)


text \<open>
  Different readings print differently, so two runs share a path exactly when they share
  the clock reading that names it.
\<close>

lemma digit_char_inj:
  assumes "a < 10" "b < 10" "digit_char a = digit_char b"
  shows "a = b"
proof -
  have d: "distinct ''0123456789''" by simp
  have l: "length ''0123456789'' = 10" by simp
  from assms d l show ?thesis
    unfolding digit_char_def by (metis nth_eq_iff_index_eq)
qed

lemma string_of_nat_nonempty: "string_of_nat n \<noteq> []"
  by (subst string_of_nat.simps) simp

lemma string_of_nat_inj: "string_of_nat m = string_of_nat n \<Longrightarrow> m = n"
proof (induction m arbitrary: n rule: string_of_nat.induct)
  case (1 m)
  show ?case
  proof (cases "m < 10")
    case m: True
    show ?thesis
    proof (cases "n < 10")
      case True
      with m "1.prems" show ?thesis
        by (simp add: string_of_nat_digit digit_char_inj)
    next
      case False
      with m "1.prems" show ?thesis
        using string_of_nat_nonempty [of "n div 10"]
        by (simp add: string_of_nat_digit string_of_nat.simps [of n])
    qed
  next
    case m: False
    show ?thesis
    proof (cases "n < 10")
      case True
      with m "1.prems" show ?thesis
        using string_of_nat_nonempty [of "m div 10"]
        by (simp add: string_of_nat_digit string_of_nat.simps [of m])
    next
      case False
      with m "1.prems" have eq: "string_of_nat (m div 10) = string_of_nat (n div 10)"
        and dg: "digit_char (m mod 10) = digit_char (n mod 10)"
        by (simp_all add: string_of_nat.simps [of m] string_of_nat.simps [of n])
      from "1.IH" [OF m eq] have "m div 10 = n div 10" .
      moreover from dg have "m mod 10 = n mod 10"
        by (intro digit_char_inj) simp_all
      ultimately show ?thesis
        by (metis div_mult_mod_eq)
    qed
  qed
qed

lemma paths_eq_iff:
  "tempVideoPath d e = tempVideoPath d e' \<longleftrightarrow> now_temp e = now_temp e'"
  "thumbnailPath d e = thumbnailPath d e' \<longleftrightarrow> now_thumbnail e = now_thumbnail e'"
  "audioPath d e = audioPath d e' \<longleftrightarrow> now_audio e = now_audio e'"
  by (auto simp: tempVideoPath_def thumbnailPath_def audioPath_def path_join_def
      dest: string_of_nat_inj)

section \<open>Properties of the ingestion run\<close>

text \<open>
  Claim C1 fails on the code: the three temporary files are released at the end of the
  \<open>try\<close> block only, and the \<open>catch\<close> block releases nothing. A run that returns has
  deleted exactly its three files (source, audio, snapshot) and touched nothing else in
  the directory. A run that throws without having inserted (at the write, an extraction,
  the transcription, the connection, the snapshot read or the insert) deletes nothing:
  every file that was in the directory before is still there, and once the upload has
  been written the source file stays behind.
\<close>

theorem processVideo_release:
  "(\<forall>res. fst (processVideo d env f w) = Inr res \<longrightarrow>
      files (snd (processVideo d env f w)) =
        (files w)(tempVideoPath d env := None, audioPath d env := None,
                  thumbnailPath d env := None)) \<and>
   (\<forall>e. fst (processVideo d env f w) = Inl e \<longrightarrow>
      recordings (snd (processVideo d env f w)) = recordings w \<longrightarrow>
      (\<forall>p. files w p \<noteq> None \<longrightarrow> files (snd (processVideo d env f w)) p \<noteq> None) \<and>
      (write_ok env \<longrightarrow>
         files (snd (processVideo d env f w)) (tempVideoPath d env) = Some (buffer f)))"
proof (intro conjI allI impI)
  fix res assume "fst (processVideo d env f w) = Inr res"
  from processVideo_Inr [OF this]
  show "files (snd (processVideo d env f w)) =
        (files w)(tempVideoPath d env := None, audioPath d env := None,
                  thumbnailPath d env := None)"
    by auto
next
  fix e p assume "fst (processVideo d env f w) = Inl e"
    "recordings (snd (processVideo d env f w)) = recordings w" "files w p \<noteq> None"
  then show "files (snd (processVideo d env f w)) p \<noteq> None"
    by (rule processVideo_Inl(2))
next
  fix e assume "fst (processVideo d env f w) = Inl e"
    "recordings (snd (processVideo d env f w)) = recordings w" "write_ok env"
  then show "files (snd (processVideo d env f w)) (tempVideoPath d env) = Some (buffer f)"
    by (rule processVideo_Inl(3))
qed

text \<open>
  The two example runs, both started in an empty directory: the run that returns leaves
  none of its files, and the run whose audio extraction fails ends with the error and
  leaves the source file and the snapshot behind.
\<close>

theorem processVideo_release_witness:
  "fst (processVideo uploads0 env_ok clip0 world0) =
     Inr \<lparr>result_id = ''65a1b2c3d4e5f60718293a4b'', result_transcription = ''hello world''\<rparr> \<and>
   files (snd (processVideo uploads0 env_ok clip0 world0)) (tempVideoPath uploads0 env_ok)
     = None \<and>
   files (snd (processVideo uploads0 env_ok clip0 world0)) (thumbnailPath uploads0 env_ok)
     = None \<and>
   files (snd (processVideo uploads0 env_ok clip0 world0)) (audioPath uploads0 env_ok)
     = None \<and>
   fst (processVideo uploads0 env_no_audio clip0 world0) = Inl FfmpegError \<and>
   recordings (snd (processVideo uploads0 env_no_audio clip0 world0)) = recordings world0 \<and>
   write_ok env_no_audio \<and>
   files world0 (tempVideoPath uploads0 env_no_audio) = None \<and>
   files (snd (processVideo uploads0 env_no_audio clip0 world0))
     (tempVideoPath uploads0 env_no_audio) = Some [26, 69, 223, 163] \<and>
   files (snd (processVideo uploads0 env_no_audio clip0 world0))
     (thumbnailPath uploads0 env_no_audio) = Some [255, 216, 255]"
  using processVideo_release [of uploads0 env_ok clip0 world0]
    processVideo_release [of uploads0 env_no_audio clip0 world0]
  by (simp add: run_ok run_no_audio examples_simps)

text \<open>
  Claim C2 fails on the code: a run that returns has inserted one document, and that
  document has no snapshot, whatever the engine produced. The snapshot file is read as
  base64 but the string is not put into the document.
\<close>

theorem processVideo_snapshot_absent:
  assumes "fst (processVideo d env f w) = Inr res"
  shows "\<exists>doc. recordings (snd (processVideo d env f w)) = recordings w @ [doc] \<and>
           snapshot doc = None"
  using processVideo_Inr [OF assms] by (auto simp: document_def)

theorem processVideo_snapshot_absent_witness:
  "thumbnail_output env_ok = Some [255, 216, 255] \<and>
   base64 [255, 216, 255] = ''/9j/'' \<and>
   fst (processVideo uploads0 env_ok clip0 world0) =
     Inr \<lparr>result_id = ''65a1b2c3d4e5f60718293a4b'', result_transcription = ''hello world''\<rparr> \<and>
   map snapshot (recordings (snd (processVideo uploads0 env_ok clip0 world0))) = [None]"
  using processVideo_snapshot_absent [of uploads0 env_ok clip0 world0]
  by (simp add: run_ok examples_simps document_def b64_char_def)




text \<open>
  Claim C5 fails on the code: the paths depend on the clock readings only, so two
  uploads handled in the same millisecond are given the same three paths.
\<close>

theorem same_millisecond_same_paths:
  "fresh_id env_ok \<noteq> fresh_id env_second \<and>
   tempVideoPath uploads0 env_ok = ''/app/uploads/temp-1700000000000.mp4'' \<and>
   tempVideoPath uploads0 env_second = ''/app/uploads/temp-1700000000000.mp4'' \<and>
   thumbnailPath uploads0 env_ok = thumbnailPath uploads0 env_second \<and>
   audioPath uploads0 env_ok = audioPath uploads0 env_second"
proof -
  have "fresh_id env_ok \<noteq> fresh_id env_second"
    by (simp add: env_ok_def env_second_def)
  moreover have "tempVideoPath uploads0 env_second = tempVideoPath uploads0 env_ok"
    by (simp add: tempVideoPath_def same_clock)
  moreover have "thumbnailPath uploads0 env_ok = thumbnailPath uploads0 env_second"
    by (simp add: thumbnailPath_def same_clock)
  moreover have "audioPath uploads0 env_ok = audioPath uploads0 env_second"
    by (simp add: audioPath_def same_clock)
  ultimately show ?thesis
    by (simp add: tempVideoPath_env_ok)
qed

text \<open>
  Claim C9. The document a returning run has inserted carries the upload's original name
  in both \<open>filename\<close> and \<open>originalName\<close>.
\<close>

theorem processVideo_filename:
  assumes "fst (processVideo d env f w) = Inr res"
  shows "\<exists>doc. recordings (snd (processVideo d env f w)) = recordings w @ [doc] \<and>
           filename doc = originalname f \<and> originalName doc = originalname f \<and>
           filename doc = originalName doc"
  using processVideo_Inr [OF assms] by (auto simp: document_def)

theorem processVideo_filename_witness:
  "fst (processVideo uploads0 env_ok clip0 world0) =
     Inr \<lparr>result_id = ''65a1b2c3d4e5f60718293a4b'', result_transcription = ''hello world''\<rparr> \<and>
   map filename (recordings (snd (processVideo uploads0 env_ok clip0 world0)))
     = [''clip.webm''] \<and>
   map originalName (recordings (snd (processVideo uploads0 env_ok clip0 world0)))
     = [''clip.webm'']"
  using processVideo_filename [of uploads0 env_ok clip0 world0]
  by (simp add: run_ok document_def examples_simps)



section \<open>The upload route\<close>

text \<open>The handler's list and the middleware's list name the same six types.\<close>

lemma allowedTypes_route_same: "set allowedTypes_route = set allowedTypes"
  by (auto simp: allowedTypes_route_def allowedTypes_def)

text \<open>
  Claim C4. An upload whose type is not one of the six allowed types, or whose size is
  above the limit (100 MiB unless configured), is refused by the upload middleware
  before \<open>processVideo\<close> is called: the request ends with the error and the state (the
  collection and the uploads directory) is as it was.
\<close>

theorem post_upload_rejects:
  assumes "mimetype f \<notin> {''video/mp4'', ''video/webm'', ''video/x-m4v'', ''video/x-msvideo'',
             ''video/x-flv'', ''video/x-matroska''} \<or> fileSize m < size_file f"
  shows "post_upload m d env (Some f) w =
           (Inl (if mimetype f \<notin> set allowedTypes then InvalidFileType else LimitFileSize), w) \<and>
         fileSize None = 100 * 1024 * 1024"
  using assms
  by (auto simp: post_upload_def upload_single_def allowedTypes_def fileSize_def)

theorem post_upload_rejects_witness:
  "mimetype pdf0 \<notin> {''video/mp4'', ''video/webm'', ''video/x-m4v'', ''video/x-msvideo'',
       ''video/x-flv'', ''video/x-matroska''} \<and>
   post_upload None uploads0 env_ok (Some pdf0) world0 = (Inl InvalidFileType, world0) \<and>
   fileSize (Some 3) < size_file clip0 \<and>
   post_upload (Some 3) uploads0 env_ok (Some clip0) world0 = (Inl LimitFileSize, world0)"
  using post_upload_rejects [of pdf0 None uploads0 env_ok world0]
    post_upload_rejects [of clip0 "Some 3" uploads0 env_ok world0]
  by (simp add: examples_simps allowedTypes_def fileSize_def)

end
